theory Spec2Isabelle
  imports Main "HOL-Library.Char_ord" "HOL-Library.List_Lexorder" "HOL-Library.Product_Lexorder"
begin

section \<open>Strings\<close>

text \<open>
  A Python \<open>str\<close> is modelled as a \<open>string\<close>; a \<open>char\<close> stands for the code point
  of the same number, so the model covers the texts whose code points are below 256.
\<close>

definition newline :: char where
  "newline = CHR 0x0A"

definition isspace :: "char \<Rightarrow> bool" where
  \<comment> \<open>the code points below 256 that \<open>str.split()\<close> and \<open>str.strip()\<close> treat as whitespace\<close>
  "isspace c =
     (let n = (of_char c :: nat)
      in (9 \<le> n \<and> n \<le> 13) \<or> (28 \<le> n \<and> n \<le> 32) \<or> n = 133 \<or> n = 160)"

definition lower_char :: "char \<Rightarrow> char" where
  \<comment> \<open>\<open>str.lower()\<close> on one code point below 256: A-Z and the Latin-1 capitals\<close>
  "lower_char c =
     (let n = (of_char c :: nat)
      in if (65 \<le> n \<and> n \<le> 90) \<or> (192 \<le> n \<and> n \<le> 222 \<and> n \<noteq> 215)
         then char_of (n + 32) else c)"

definition str_lower :: "string \<Rightarrow> string" where
  "str_lower s = map lower_char s"

definition str_strip :: "string \<Rightarrow> string" where
  \<comment> \<open>\<open>s.strip()\<close>\<close>
  "str_strip s = rev (dropWhile isspace (rev (dropWhile isspace s)))"

fun split_from :: "string \<Rightarrow> string \<Rightarrow> string list" where
  \<comment> \<open>the scan of \<open>s.split()\<close>; the first argument is the token read so far\<close>
  "split_from cur [] = (if cur = [] then [] else [cur])"
| "split_from cur (c # cs) =
     (if isspace c then (if cur = [] then split_from [] cs else cur # split_from [] cs)
      else split_from (cur @ [c]) cs)"

definition str_split :: "string \<Rightarrow> string list" where
  \<comment> \<open>\<open>s.split()\<close>: the maximal runs of non-whitespace\<close>
  "str_split s = split_from [] s"

fun str_join :: "string \<Rightarrow> string list \<Rightarrow> string" where
  \<comment> \<open>\<open>sep.join(xs)\<close>\<close>
  "str_join sep [] = []"
| "str_join sep [x] = x"
| "str_join sep (x # y # ys) = x @ sep @ str_join sep (y # ys)"

fun lines_of :: "string \<Rightarrow> string list" where
  \<comment> \<open>the lines of a text: the pieces between its newline characters\<close>
  "lines_of [] = [[]]"
| "lines_of (c # cs) =
     (if c = newline then [] # lines_of cs
      else (case lines_of cs of [] \<Rightarrow> [[c]] | l # ls \<Rightarrow> (c # l) # ls))"

section \<open>Exceptions\<close>

text \<open>
  Modelled from the spec: the exception classes of the contact model are declared in modules
  that are not among the source files. Section 7 of the spec names the kinds
  \<open>FormatError\<close>, \<open>NotFoundError\<close> and \<open>ConflictError\<close> and has the command layer catch
  every one of them, so each is one of the classes that \<open>input_error\<close> catches.
  \<open>ValueError\<close> is the class the handlers and the unpacking in \<open>parse_input\<close> raise
  themselves. An exception carries its message, the text that \<open>str(e)\<close> gives.
\<close>

datatype error =
    ValueError string
  | FormatError string
  | NotFoundError string
  | ConflictError string

fun str_error :: "error \<Rightarrow> string" where
  "str_error (ValueError m) = m"
| "str_error (FormatError m) = m"
| "str_error (NotFoundError m) = m"
| "str_error (ConflictError m) = m"

section \<open>Calendar dates\<close>

text \<open>
  Modelled from the spec: the class of the birthday field is not among the source files.
  Section 3 of the spec has a calendar date with no time of day.
\<close>

record date =
  year :: nat
  month :: nat
  day :: nat

text \<open>
  Modelled from the spec: the calendar of these dates, which the spec takes as known. It is
  the Gregorian calendar as Python's \<open>datetime.date\<close> has it: years 1 to 9999, the day
  number of 1 January of year 1 is 1, and weekday 0 is a Monday.
\<close>

definition is_leap :: "nat \<Rightarrow> bool" where
  "is_leap y = (y mod 4 = 0 \<and> (y mod 100 \<noteq> 0 \<or> y mod 400 = 0))"

definition days_in_month :: "nat \<Rightarrow> nat \<Rightarrow> nat" where
  "days_in_month y m =
     (if m = 2 then (if is_leap y then 29 else 28)
      else if m = 4 \<or> m = 6 \<or> m = 9 \<or> m = 11 then 30 else 31)"

definition valid_date :: "date \<Rightarrow> bool" where
  "valid_date d =
     (1 \<le> year d \<and> year d \<le> 9999 \<and> 1 \<le> month d \<and> month d \<le> 12 \<and>
      1 \<le> day d \<and> day d \<le> days_in_month (year d) (month d))"

definition days_before_year :: "nat \<Rightarrow> nat" where
  "days_before_year y = (y - 1) * 365 + (y - 1) div 4 - (y - 1) div 100 + (y - 1) div 400"

definition days_before_month :: "nat \<Rightarrow> nat \<Rightarrow> nat" where
  "days_before_month y m = sum_list (map (days_in_month y) [1..<m])"

definition toordinal :: "date \<Rightarrow> nat" where
  "toordinal d = days_before_year (year d) + days_before_month (year d) (month d) + day d"

definition weekday :: "date \<Rightarrow> nat" where
  \<comment> \<open>0 is Monday, 5 Saturday, 6 Sunday\<close>
  "weekday d = (toordinal d + 6) mod 7"

definition next_day :: "date \<Rightarrow> date" where
  "next_day d =
     (if day d < days_in_month (year d) (month d) then d\<lparr>day := day d + 1\<rparr>
      else if month d < 12 then d\<lparr>month := month d + 1, day := 1\<rparr>
      else \<lparr>year = year d + 1, month = 1, day = 1\<rparr>)"

definition add_days :: "nat \<Rightarrow> date \<Rightarrow> date" where
  "add_days n d = (next_day ^^ n) d"

text \<open>
  Modelled from the spec: the parser and the rendering of a birthday text belong to the
  missing birthday class. Section 4.1 of the spec has a fixed day/month/year layout, for
  which it gives \<open>DD.MM.YYYY\<close>, and has every deviation and every date the calendar does
  not have fail with \<open>FormatError\<close>, which is \<open>None\<close> here. Section 8 has the rendering
  give back the same calendar date; it is taken in the same layout.
\<close>

definition is_digit :: "char \<Rightarrow> bool" where
  "is_digit c = (CHR ''0'' \<le> c \<and> c \<le> CHR ''9'')"

definition digit_val :: "char \<Rightarrow> nat" where
  "digit_val c = of_char c - 48"

definition nat_of_digits :: "string \<Rightarrow> nat" where
  "nat_of_digits s = foldl (\<lambda>n c. 10 * n + digit_val c) 0 s"

definition parse_date :: "string \<Rightarrow> date option" where
  "parse_date s =
     (case s of
        [d1, d2, p1, m1, m2, p2, y1, y2, y3, y4] \<Rightarrow>
          if list_all is_digit [d1, d2, m1, m2, y1, y2, y3, y4] \<and> p1 = CHR ''.'' \<and> p2 = CHR ''.''
          then (let d = \<lparr>year = nat_of_digits [y1, y2, y3, y4],
                         month = nat_of_digits [m1, m2],
                         day = nat_of_digits [d1, d2]\<rparr>
                in if valid_date d then Some d else None)
          else None
      | _ \<Rightarrow> None)"

definition digit_char :: "nat \<Rightarrow> char" where
  "digit_char n = char_of (48 + n mod 10)"

definition str_date :: "date \<Rightarrow> string" where
  "str_date d =
     [digit_char (day d div 10), digit_char (day d)] @ ''.'' @
     [digit_char (month d div 10), digit_char (month d)] @ ''.'' @
     [digit_char (year d div 1000), digit_char (year d div 100),
      digit_char (year d div 10), digit_char (year d)]"

section \<open>The contact model\<close>

text \<open>
  Modelled from the spec: the class \<open>Record\<close> (the Contact of the spec) is imported by the
  handlers from a module that is not among the source files. Its fields are the ones the
  handlers read, with the content section 3 of the spec gives them: a name, the phones in
  insertion order, and at most one birthday.
\<close>

record Record =
  name :: string
  phones :: "string list"
  birthday :: "date option"

text \<open>
  Modelled from the spec: the class \<open>AddressBook\<close> (the Directory of the spec) is imported
  from a module that is not among the source files. Section 3 has a mapping from name to
  contact with unique keys, enumerated in insertion order.
\<close>

type_synonym AddressBook = "(string \<times> Record) list"

text \<open>
  Modelled from the spec: the constructor \<open>Record(name)\<close> is missing; section 3 has a
  contact created with its name, and its phones and birthday come from later calls.
\<close>

definition new_record :: "string \<Rightarrow> Record" where
  "new_record nm = \<lparr>name = nm, phones = [], birthday = None\<rparr>"

text \<open>
  Modelled from the spec: the phone format rule of the missing phone class. Section 4.1 has
  a string of exactly N decimal digits and leaves N to the system, so N is a parameter.
\<close>

definition valid_phone :: "nat \<Rightarrow> string \<Rightarrow> bool" where
  "valid_phone N v = (length v = N \<and> list_all is_digit v)"

text \<open>
  Modelled from the spec: the method \<open>Record.add_phone\<close> is missing. Section 4.1 has it
  validate the value, fail with \<open>FormatError\<close> if it is invalid, and append otherwise,
  without rejecting a duplicate. The message texts of this and the following failures are
  not given by the spec; they are the descriptions of the kinds in section 7.
\<close>

definition add_phone :: "nat \<Rightarrow> string \<Rightarrow> Record \<Rightarrow> error + Record" where
  "add_phone N v r =
     (if valid_phone N v then Inr (r\<lparr>phones := phones r @ [v]\<rparr>)
      else Inl (FormatError ''malformed phone text''))"

text \<open>
  Modelled from the spec: the method \<open>Record.find_phone\<close> is missing. Section 4.1 has it
  return the entry that matches by exact value, or nothing.
\<close>

definition find_phone :: "string \<Rightarrow> Record \<Rightarrow> string option" where
  "find_phone v r = List.find (\<lambda>p. p = v) (phones r)"

text \<open>
  Modelled from the spec: the method \<open>Record.edit_phone\<close> is missing. Section 4.1 has it
  validate the new value, fail with \<open>NotFoundError\<close> if the old value is not present, and
  otherwise replace that entry in place, keeping its position.
\<close>

fun replace_first :: "string \<Rightarrow> string \<Rightarrow> string list \<Rightarrow> string list" where
  "replace_first old new [] = []"
| "replace_first old new (p # ps) =
     (if p = old then new # ps else p # replace_first old new ps)"

definition edit_phone :: "nat \<Rightarrow> string \<Rightarrow> string \<Rightarrow> Record \<Rightarrow> error + Record" where
  "edit_phone N old new r =
     (if \<not> valid_phone N new then Inl (FormatError ''malformed phone text'')
      else if find_phone old r = None then Inl (NotFoundError ''referenced phone does not exist'')
      else Inr (r\<lparr>phones := replace_first old new (phones r)\<rparr>))"

text \<open>
  Modelled from the spec: the method \<open>Record.remove_phone\<close> is missing. Section 4.1 has it
  fail with \<open>NotFoundError\<close> if the value is absent and remove the first matching entry
  otherwise.
\<close>

definition remove_phone :: "string \<Rightarrow> Record \<Rightarrow> error + Record" where
  "remove_phone v r =
     (if find_phone v r = None then Inl (NotFoundError ''referenced phone does not exist'')
      else Inr (r\<lparr>phones := remove1 v (phones r)\<rparr>))"

text \<open>
  Modelled from the spec: the method \<open>Record.add_birthday\<close> is missing. Section 4.1 has it
  parse the text, fail with \<open>FormatError\<close> on malformed input, and overwrite any birthday
  stored before.
\<close>

definition record_add_birthday :: "string \<Rightarrow> Record \<Rightarrow> error + Record" where
  "record_add_birthday txt r =
     (case parse_date txt of
        None \<Rightarrow> Inl (FormatError ''malformed birthday text'')
      | Some d \<Rightarrow> Inr (r\<lparr>birthday := Some d\<rparr>))"

text \<open>
  Modelled from the spec: the text of the birthday field, \<open>str(record.birthday)\<close>, belongs
  to the missing classes. Section 3 has the birthday optional: a contact without one holds
  Python's \<open>None\<close>, whose text is \<open>None\<close>.
\<close>

definition str_birthday :: "date option \<Rightarrow> string" where
  "str_birthday b = (case b of None \<Rightarrow> ''None'' | Some d \<Rightarrow> str_date d)"

text \<open>
  Modelled from the spec: the rendering \<open>str(record)\<close> is missing. Section 4.1 has a line
  with the name, the comma-joined phones, and the birthday if present; the spec fixes this
  content of the line, not its layout.
\<close>

definition str_record :: "Record \<Rightarrow> string" where
  "str_record r =
     name r @ '': '' @ str_join '', '' (phones r) @
     (case birthday r of None \<Rightarrow> [] | Some d \<Rightarrow> '', '' @ str_date d)"

text \<open>
  Modelled from the spec: the method \<open>AddressBook.find\<close> is missing. Section 4.2 has an
  exact-key lookup that gives nothing for an absent name.
\<close>

definition find_record :: "AddressBook \<Rightarrow> string \<Rightarrow> Record option" where
  "find_record book nm = map_of book nm"

text \<open>
  Modelled from the spec: the method \<open>AddressBook.add_record\<close> (the \<open>add\<close> of the spec)
  is missing. Section 4.2 has it fail with \<open>ConflictError\<close> if the name is a key already
  and insert otherwise; a new key comes last in the enumeration.
\<close>

definition add_record :: "Record \<Rightarrow> AddressBook \<Rightarrow> error + AddressBook" where
  "add_record r book =
     (if find_record book (name r) \<noteq> None then Inl (ConflictError ''duplicate name insertion'')
      else Inr (book @ [(name r, r)]))"

text \<open>
  Modelled from the spec: section 3 has the phones and the birthday of a contact mutated in
  place. The contact that \<open>find\<close> returned is the object the book holds, so a method that
  mutates it changes the entry stored under its name, where it stands.
\<close>

fun put_record :: "string \<Rightarrow> Record \<Rightarrow> AddressBook \<Rightarrow> AddressBook" where
  "put_record nm r [] = []"
| "put_record nm r ((k, v) # kvs) =
     (if k = nm then (k, r) # kvs else (k, v) # put_record nm r kvs)"

text \<open>
  Modelled from the spec: the scan for upcoming birthdays is missing. Section 4.2 computes,
  for a contact with a birthday, this year's occurrence of its month and day, next year's
  when that has passed already. The spec does not say what the occurrence of 29 February
  is in a year without one; here there is none.
\<close>

definition occurrence :: "date \<Rightarrow> date \<Rightarrow> date option" where
  "occurrence now b =
     (let passed = (month b < month now \<or> (month b = month now \<and> day b < day now));
          occ = \<lparr>year = (if passed then year now + 1 else year now),
                 month = month b, day = day b\<rparr>
      in if valid_date occ then Some occ else None)"

text \<open>
  Modelled from the spec: the weekend policy of section 4.2. An occurrence on a Saturday or
  a Sunday has the following Monday as its congratulation date.
\<close>

definition congratulation_date :: "date \<Rightarrow> date" where
  "congratulation_date occ =
     (if weekday occ = 5 then add_days 2 occ
      else if weekday occ = 6 then add_days 1 occ
      else occ)"

text \<open>
  Modelled from the spec: the window of section 4.2, from today to today plus the window
  days, both ends included.
\<close>

definition in_window :: "date \<Rightarrow> nat \<Rightarrow> date \<Rightarrow> bool" where
  "in_window now window_days occ =
     (toordinal now \<le> toordinal occ \<and> toordinal occ \<le> toordinal now + window_days)"

text \<open>
  Modelled from the spec: \<open>upcoming_birthdays(today, window_days)\<close> of section 4.2. A
  contact is included if it has a birthday whose occurrence falls in the window; the result
  pairs it with its congratulation date and is ascending by that date, then by name.
\<close>

definition upcoming_entry :: "date \<Rightarrow> nat \<Rightarrow> Record \<Rightarrow> (Record \<times> date) option" where
  "upcoming_entry now window_days r =
     (case birthday r of
        None \<Rightarrow> None
      | Some b \<Rightarrow>
          (case occurrence now b of
             None \<Rightarrow> None
           | Some occ \<Rightarrow>
               if in_window now window_days occ then Some (r, congratulation_date occ)
               else None))"

definition upcoming_birthdays :: "date \<Rightarrow> nat \<Rightarrow> AddressBook \<Rightarrow> (Record \<times> date) list" where
  "upcoming_birthdays now window_days book =
     sort_key (\<lambda>(r, d). (toordinal d, name r))
       (List.map_filter (upcoming_entry now window_days) (map snd book))"

text \<open>
  Modelled from the spec: the method \<open>AddressBook.get_upcoming_birthdays\<close>, which the
  handler calls without arguments, is missing. Section 4.2 returns every included contact
  with its congratulation date and has that date, not the stored birthday, shown to the
  user. The handler shows the \<open>birthday\<close> of each element beside its \<open>name\<close> and its
  \<open>phones\<close>, so an element is the contact with the congratulation date in that field; the
  contact stored in the book is not altered. The result is the one of section 4.2, in its
  order, at the current date and the window of 7 days.
\<close>

definition get_upcoming_birthdays :: "date \<Rightarrow> AddressBook \<Rightarrow> Record list" where
  "get_upcoming_birthdays now book =
     map (\<lambda>(r, d). r\<lparr>birthday := Some d\<rparr>) (upcoming_birthdays now 7 book)"

section \<open>The command handlers (handlers.py)\<close>

text \<open>
  A handler receives the argument list and the book and returns its reply; the book is
  mutated in place, so the model returns the book as it is afterwards, also when an
  exception is raised. The number of digits of a phone and the current date, which the
  methods of the contact model read, are parameters.
\<close>

type_synonym outcome = "(error + string) \<times> AddressBook"
  \<comment> \<open>what a handler body does: an exception or a reply, and the book afterwards\<close>

definition input_error ::
  "('a \<Rightarrow> AddressBook \<Rightarrow> outcome) \<Rightarrow> 'a \<Rightarrow> AddressBook \<Rightarrow> string \<times> AddressBook" where
  \<comment> \<open>the decorator: an exception of the caught classes becomes the reply \<open>str(e)\<close>\<close>
  "input_error func args book =
     (case func args book of
        (Inl e, book') \<Rightarrow> (str_error e, book')
      | (Inr reply, book') \<Rightarrow> (reply, book'))"

definition add_contact_body :: "nat \<Rightarrow> string list \<Rightarrow> AddressBook \<Rightarrow> outcome" where
  "add_contact_body N args book =
     (case args of
        nm # phone # optional_args \<Rightarrow>
          (let bday = (case optional_args of [] \<Rightarrow> None | b # _ \<Rightarrow> Some b)
           in case find_record book nm of
                Some existing_record \<Rightarrow>
                  if list_ex (\<lambda>p. phone = p) (phones existing_record)
                  then (Inr ''Contact with this name and phone number already exists.'', book)
                  else (case add_phone N phone existing_record of
                          Inl e \<Rightarrow> (Inl e, book)
                        | Inr r \<Rightarrow> (Inr ''Contact updated.'', put_record nm r book))
              | None \<Rightarrow>
                  (case add_phone N phone (new_record nm) of
                     Inl e \<Rightarrow> (Inl e, book)
                   | Inr r1 \<Rightarrow>
                       (case (case bday of
                                None \<Rightarrow> Inr r1
                              | Some b \<Rightarrow> if b \<noteq> [] then record_add_birthday b r1 else Inr r1) of
                          Inl e \<Rightarrow> (Inl e, book)
                        | Inr r2 \<Rightarrow>
                            (case add_record r2 book of
                               Inl e \<Rightarrow> (Inl e, book)
                             | Inr book' \<Rightarrow> (Inr ''Contact added.'', book')))))
      | _ \<Rightarrow> (Inl (ValueError ''Error: Give me name and phone please.''), book))"

definition add_contact :: "nat \<Rightarrow> string list \<Rightarrow> AddressBook \<Rightarrow> string \<times> AddressBook" where
  "add_contact N = input_error (add_contact_body N)"

definition change_contact_body :: "nat \<Rightarrow> string list \<Rightarrow> AddressBook \<Rightarrow> outcome" where
  "change_contact_body N args book =
     (case args of
        [nm, old_phone, new_phone] \<Rightarrow>
          (case find_record book nm of
             Some r \<Rightarrow>
               (case edit_phone N old_phone new_phone r of
                  Inl e \<Rightarrow> (Inl e, book)
                | Inr r' \<Rightarrow> (Inr ''Phone number updated.'', put_record nm r' book))
           | None \<Rightarrow> (Inr ''Contact not found.'', book))
      | [nm, phone_to_remove] \<Rightarrow>
          (case find_record book nm of
             Some r \<Rightarrow>
               if find_phone phone_to_remove r \<noteq> None
               then (case remove_phone phone_to_remove r of
                       Inl e \<Rightarrow> (Inl e, book)
                     | Inr r' \<Rightarrow> (Inr ''Phone number removed.'', put_record nm r' book))
               else (Inr ''Phone number not found in the contact.'', book)
           | None \<Rightarrow> (Inr ''Contact not found.'', book))
      | _ \<Rightarrow>
          (Inl (ValueError
             ''Error: Give me name, old phone and new phone please or name and phone to remove.''),
           book))"

definition change_contact :: "nat \<Rightarrow> string list \<Rightarrow> AddressBook \<Rightarrow> string \<times> AddressBook" where
  "change_contact N = input_error (change_contact_body N)"

definition show_phone_body :: "string list \<Rightarrow> AddressBook \<Rightarrow> outcome" where
  "show_phone_body args book =
     (case args of
        [nm] \<Rightarrow>
          (case find_record book nm of
             Some r \<Rightarrow> (Inr (nm @ '': '' @ str_join '', '' (phones r)), book)
           | None \<Rightarrow> (Inr ''Contact not found.'', book))
      | _ \<Rightarrow> (Inl (ValueError ''Error: Give me name, please.''), book))"

definition show_phone :: "string list \<Rightarrow> AddressBook \<Rightarrow> string \<times> AddressBook" where
  "show_phone = input_error show_phone_body"

definition show_all_body :: "unit \<Rightarrow> AddressBook \<Rightarrow> outcome" where
  \<comment> \<open>\<open>show_all\<close> has the book as its only argument\<close>
  "show_all_body u book =
     (if book = [] then (Inr ''The address book is empty.'', book)
      else (Inr (str_join [newline] (map (\<lambda>(k, r). str_record r) book)), book))"

definition show_all :: "AddressBook \<Rightarrow> string \<times> AddressBook" where
  "show_all = input_error show_all_body ()"

definition add_birthday_body :: "string list \<Rightarrow> AddressBook \<Rightarrow> outcome" where
  "add_birthday_body args book =
     (case args of
        [nm, bday] \<Rightarrow>
          (case find_record book nm of
             Some r \<Rightarrow>
               (case record_add_birthday bday r of
                  Inl e \<Rightarrow> (Inl e, book)
                | Inr r' \<Rightarrow> (Inr ''Birthday added.'', put_record nm r' book))
           | None \<Rightarrow> (Inr ''Contact not found.'', book))
      | _ \<Rightarrow> (Inl (ValueError ''Error: Give me name and birthday please.''), book))"

definition add_birthday :: "string list \<Rightarrow> AddressBook \<Rightarrow> string \<times> AddressBook" where
  "add_birthday = input_error add_birthday_body"

definition show_birthday_body :: "string list \<Rightarrow> AddressBook \<Rightarrow> outcome" where
  "show_birthday_body args book =
     (case args of
        [nm] \<Rightarrow>
          (case find_record book nm of
             Some r \<Rightarrow> (Inr (nm @ '': '' @ str_birthday (birthday r)), book)
           | None \<Rightarrow> (Inr ''Contact not found.'', book))
      | _ \<Rightarrow> (Inl (ValueError ''Error: Give me name, please.''), book))"

definition show_birthday :: "string list \<Rightarrow> AddressBook \<Rightarrow> string \<times> AddressBook" where
  "show_birthday = input_error show_birthday_body"

definition birthday_line :: "Record \<Rightarrow> string" where
  \<comment> \<open>the line the handler makes of one element of the upcoming birthdays\<close>
  "birthday_line r =
     ''Upcoming birthday within the next week: '' @ name r @ '' - '' @
     str_birthday (birthday r) @ '', Phones: '' @ str_join '', '' (phones r)"

definition birthdays_body :: "date \<Rightarrow> string list \<Rightarrow> AddressBook \<Rightarrow> outcome" where
  "birthdays_body now args book =
     (let upcoming = get_upcoming_birthdays now book
      in if upcoming = [] then (Inr ''No birthdays in the next 7 days.'', book)
         else (Inr (str_join [newline] (map birthday_line upcoming)), book))"

definition birthdays :: "date \<Rightarrow> string list \<Rightarrow> AddressBook \<Rightarrow> string \<times> AddressBook" where
  "birthdays now = input_error (birthdays_body now)"

section \<open>The command loop (main.py)\<close>

definition handle_action ::
  "nat \<Rightarrow> date \<Rightarrow> string \<Rightarrow> string list \<Rightarrow> AddressBook \<Rightarrow> string \<times> AddressBook" where
  "handle_action N now action args book =
     (if action = ''hello'' then (''How can I help you?'', book)
      else if action = ''add'' then add_contact N args book
      else if action = ''change'' then change_contact N args book
      else if action = ''phone'' then show_phone args book
      else if action = ''all'' then show_all book
      else if action = ''add-birthday'' then add_birthday args book
      else if action = ''show-birthday'' then show_birthday args book
      else if action = ''birthdays'' then birthdays now args book
      else if action = ''close'' \<or> action = ''exit'' \<or> action = ''bye'' then (''Good bye!'', book)
      else (''Invalid command. Available commands are: hello, add, change, phone, all, add-birthday, show-birthday, birthdays, close, exit, bye.'', book))"

definition parse_input :: "string \<Rightarrow> error + string \<times> string list" where
  \<comment> \<open>the starred unpacking needs one token at least and raises \<open>ValueError\<close> otherwise\<close>
  "parse_input user_input =
     (case str_split user_input of
        [] \<Rightarrow> Inl (ValueError ''not enough values to unpack (expected at least 1, got 0)'')
      | action # args \<Rightarrow> Inr (str_lower (str_strip action), args))"

definition main_step ::
  "nat \<Rightarrow> date \<Rightarrow> string \<Rightarrow> AddressBook \<Rightarrow> error + string \<times> AddressBook" where
  \<comment> \<open>one round of the loop of \<open>main\<close>: parse the line, then handle the action. Nothing in
      \<open>main\<close> catches an exception, so \<open>Inl\<close> is the exception that ends the process\<close>
  "main_step N now user_input book =
     (case parse_input user_input of
        Inl e \<Rightarrow> Inl e
      | Inr (action, args) \<Rightarrow> Inr (handle_action N now action args book))"

section \<open>Example data\<close>

text \<open>
  The scenario of section 8 of the spec: Anna with one phone and the birthday 15.03.1990,
  and 14 March 2025, a Friday, as the current date, so that this year's occurrence of the
  birthday is a Saturday. Bob is a contact without a birthday.
\<close>

abbreviation anna :: Record where
  "anna \<equiv> \<lparr>name = ''Anna'', phones = [''1234567890''],
            birthday = Some \<lparr>year = 1990, month = 3, day = 15\<rparr>\<rparr>"

abbreviation bob :: Record where
  "bob \<equiv> \<lparr>name = ''Bob'', phones = [''0987654321''], birthday = None\<rparr>"

abbreviation friday :: date where
  "friday \<equiv> \<lparr>year = 2025, month = 3, day = 14\<rparr>"

section \<open>Facts about the book and the format rules\<close>

lemma find_record_put_same:
  "find_record book nm = Some r \<Longrightarrow> find_record (put_record nm r' book) nm = Some r'"
  by (induction book) (auto simp: find_record_def)

lemma find_record_put_other:
  "k \<noteq> nm \<Longrightarrow> find_record (put_record nm r' book) k = find_record book k"
  by (induction book) (auto simp: find_record_def)

lemma keys_put_record: "map fst (put_record nm r' book) = map fst book"
  by (induction book) auto

lemma find_record_append_new:
  "find_record book nm = None \<Longrightarrow> find_record (book @ [(nm, r)]) nm = Some r"
  by (simp add: find_record_def map_add_def split: option.splits)

lemma list_ex_eq_mem: "list_ex (\<lambda>p. v = p) ps \<longleftrightarrow> v \<in> set ps"
  by (auto simp: list_ex_iff)

lemma find_phone_None: "find_phone v r = None \<longleftrightarrow> v \<notin> set (phones r)"
  by (auto simp: find_phone_def find_None_iff)

lemma valid_phone_example: "valid_phone 10 ''1234567890'' \<and> valid_phone 10 ''0987654321''"
  by (simp add: valid_phone_def is_digit_def)

lemma invalid_phone_example: "\<not> valid_phone 10 ''abc''"
  by (simp add: valid_phone_def)

lemma parse_date_example:
  "parse_date ''15.03.1990'' = Some \<lparr>year = 1990, month = 3, day = 15\<rparr>"
  by (simp add: parse_date_def is_digit_def nat_of_digits_def digit_val_def valid_date_def
        days_in_month_def)

lemma parse_date_april_31: "parse_date ''31.04.1990'' = None"
  by (simp add: parse_date_def is_digit_def nat_of_digits_def digit_val_def valid_date_def
        days_in_month_def)

lemma str_date_example: "str_date \<lparr>year = 1990, month = 3, day = 15\<rparr> = ''15.03.1990''"
  by (simp add: str_date_def digit_char_def char_of_eq_iff)

section \<open>add\_contact\<close>

text \<open>
  C1, as amended. With a name that is not in the book, a phone of N digits and a third
  argument that is absent, empty or a birthday text that parses, \<open>add_contact\<close> stores a
  new contact with that phone last in the book, with the birthday when the third argument
  is one, and replies \<open>Contact added.\<close>. With a name in the book whose contact does not
  have the phone, and a phone of N digits, the phone is appended to that contact and the
  reply is \<open>Contact updated.\<close>. With a name in the book whose contact has the phone
  already, the reply is the duplicate message and the book is unchanged.
\<close>

theorem add_contact_upsert:
  "(find_record book nm = None \<and> valid_phone N phone \<and>
      (rest = [] \<or> (\<exists>others. rest = [] # others)) \<longrightarrow>
      add_contact N (nm # phone # rest) book =
        (''Contact added.'', book @ [(nm, \<lparr>name = nm, phones = [phone], birthday = None\<rparr>)])) \<and>
   (find_record book nm = None \<and> valid_phone N phone \<and> b \<noteq> [] \<and> parse_date b = Some d \<longrightarrow>
      add_contact N (nm # phone # b # others) book =
        (''Contact added.'', book @ [(nm, \<lparr>name = nm, phones = [phone], birthday = Some d\<rparr>)])) \<and>
   (find_record book nm = Some r \<and> phone \<notin> set (phones r) \<and> valid_phone N phone \<longrightarrow>
      add_contact N (nm # phone # rest) book =
        (''Contact updated.'', put_record nm (r\<lparr>phones := phones r @ [phone]\<rparr>) book)) \<and>
   (find_record book nm = Some r \<and> phone \<in> set (phones r) \<longrightarrow>
      add_contact N (nm # phone # rest) book =
        (''Contact with this name and phone number already exists.'', book))"
  by (cases rest)
     (auto simp: add_contact_def input_error_def add_contact_body_def list_ex_eq_mem
        add_phone_def new_record_def record_add_birthday_def add_record_def)

theorem add_contact_upsert_witness:
  "add_contact 10 [''Anna'', ''1234567890''] [] =
     (''Contact added.'',
      [(''Anna'', \<lparr>name = ''Anna'', phones = [''1234567890''], birthday = None\<rparr>)]) \<and>
   add_contact 10 [''Anna'', ''1234567890'', ''15.03.1990''] [] =
     (''Contact added.'', [(''Anna'', anna)]) \<and>
   add_contact 10 [''Anna'', ''0987654321''] [(''Anna'', anna)] =
     (''Contact updated.'',
      [(''Anna'', anna\<lparr>phones := [''1234567890'', ''0987654321'']\<rparr>)]) \<and>
   add_contact 10 [''Anna'', ''1234567890''] [(''Anna'', anna)] =
     (''Contact with this name and phone number already exists.'', [(''Anna'', anna)])"
proof -
  have absent: "find_record [] ''Anna'' = None"
    by (simp add: find_record_def)
  have present: "find_record [(''Anna'', anna)] ''Anna'' = Some anna"
    by (simp add: find_record_def)
  note ok = valid_phone_example
  note thm1 = add_contact_upsert[where book = "[]" and nm = "''Anna''" and N = 10
      and phone = "''1234567890''" and rest = "[]" and b = "''15.03.1990''"
      and d = "\<lparr>year = 1990, month = 3, day = 15\<rparr>" and others = "[]"]
  note thm2 = add_contact_upsert[where book = "[(''Anna'', anna)]" and nm = "''Anna''"
      and N = 10 and phone = "''0987654321''" and rest = "[]" and r = anna]
  note thm3 = add_contact_upsert[where book = "[(''Anna'', anna)]" and nm = "''Anna''"
      and N = 10 and phone = "''1234567890''" and rest = "[]" and r = anna]
  show ?thesis
    using thm1 thm2 thm3 absent present ok parse_date_example by simp
qed

text \<open>
  C1 as stated fails twice for a new name. \<open>abc\<close> is no phone of 10 digits: the reply
  is not \<open>Contact added.\<close> and no contact is stored. With a phone of 10 digits and the
  third argument \<open>31.04.1990\<close>, which is no birthday (April has 30 days), the birthday is
  set before the contact is added to the book: again the reply is not \<open>Contact added.\<close>
  and no contact is stored.
\<close>

theorem add_contact_malformed_counterexample:
  "find_record [] ''Anna'' = None \<and>
   fst (add_contact 10 [''Anna'', ''abc''] []) \<noteq> ''Contact added.'' \<and>
   snd (add_contact 10 [''Anna'', ''abc''] []) = [] \<and>
   valid_phone 10 ''1234567890'' \<and>
   fst (add_contact 10 [''Anna'', ''1234567890'', ''31.04.1990''] []) \<noteq> ''Contact added.'' \<and>
   snd (add_contact 10 [''Anna'', ''1234567890'', ''31.04.1990''] []) = []"
  using valid_phone_example
  by (simp add: find_record_def add_contact_def input_error_def add_contact_body_def
        add_phone_def invalid_phone_example new_record_def record_add_birthday_def
        parse_date_april_31)

text \<open>
  C2. When the name is in the book and its contact has the phone verbatim, \<open>add_contact\<close>
  returns the duplicate message and the book is the one it was given: no contact, phone
  list or birthday has changed.
\<close>

theorem add_contact_duplicate_unchanged:
  "find_record book nm = Some r \<Longrightarrow> phone \<in> set (phones r) \<Longrightarrow>
   add_contact N (nm # phone # rest) book =
     (''Contact with this name and phone number already exists.'', book)"
  by (simp add: add_contact_def input_error_def add_contact_body_def list_ex_eq_mem)

theorem add_contact_duplicate_unchanged_witness:
  "find_record [(''Bob'', bob), (''Anna'', anna)] ''Anna'' = Some anna \<and>
   ''1234567890'' \<in> set (phones anna) \<and>
   add_contact 10 [''Anna'', ''1234567890'', ''01.01.2000''] [(''Bob'', bob), (''Anna'', anna)] =
     (''Contact with this name and phone number already exists.'',
      [(''Bob'', bob), (''Anna'', anna)])"
proof -
  have h1: "find_record [(''Bob'', bob), (''Anna'', anna)] ''Anna'' = Some anna"
    by (simp add: find_record_def)
  have h2: "''1234567890'' \<in> set (phones anna)"
    by simp
  show ?thesis
    using add_contact_duplicate_unchanged[OF h1 h2, of 10 "[''01.01.2000'']"] h1 h2 by simp
qed

section \<open>change\_contact\<close>

text \<open>
  C6, as amended. With three arguments, a name in the book, an old phone that its contact
  has and a new phone of N digits, \<open>change_contact\<close> replaces the old phone by the new
  one where it stands. With two arguments, a name in the book and a phone that its contact
  has, it removes that phone; a phone the contact does not have is reported and nothing
  changes. In either arity a name that is not in the book gives \<open>Contact not found.\<close> and
  the book is unchanged.
\<close>

theorem change_contact_edit_remove:
  "(find_record book nm = Some r \<and> old_phone \<in> set (phones r) \<and> valid_phone N new_phone \<longrightarrow>
      change_contact N [nm, old_phone, new_phone] book =
        (''Phone number updated.'',
         put_record nm (r\<lparr>phones := replace_first old_phone new_phone (phones r)\<rparr>) book)) \<and>
   (find_record book nm = Some r \<and> p \<in> set (phones r) \<longrightarrow>
      change_contact N [nm, p] book =
        (''Phone number removed.'', put_record nm (r\<lparr>phones := remove1 p (phones r)\<rparr>) book)) \<and>
   (find_record book nm = Some r \<and> p \<notin> set (phones r) \<longrightarrow>
      change_contact N [nm, p] book = (''Phone number not found in the contact.'', book)) \<and>
   (find_record book nm = None \<longrightarrow>
      change_contact N [nm, old_phone, new_phone] book = (''Contact not found.'', book) \<and>
      change_contact N [nm, p] book = (''Contact not found.'', book))"
  by (simp add: change_contact_def input_error_def change_contact_body_def edit_phone_def
        remove_phone_def find_phone_None)

theorem change_contact_edit_remove_witness:
  "change_contact 10 [''Anna'', ''1234567890'', ''0987654321''] [(''Anna'', anna)] =
     (''Phone number updated.'', [(''Anna'', anna\<lparr>phones := [''0987654321'']\<rparr>)]) \<and>
   change_contact 10 [''Anna'', ''1234567890''] [(''Anna'', anna)] =
     (''Phone number removed.'', [(''Anna'', anna\<lparr>phones := []\<rparr>)]) \<and>
   change_contact 10 [''Anna'', ''0987654321''] [(''Anna'', anna)] =
     (''Phone number not found in the contact.'', [(''Anna'', anna)]) \<and>
   change_contact 10 [''Bob'', ''1234567890'', ''0987654321''] [(''Anna'', anna)] =
     (''Contact not found.'', [(''Anna'', anna)]) \<and>
   change_contact 10 [''Bob'', ''1234567890''] [(''Anna'', anna)] =
     (''Contact not found.'', [(''Anna'', anna)])"
proof -
  have present: "find_record [(''Anna'', anna)] ''Anna'' = Some anna"
    by (simp add: find_record_def)
  have absent: "find_record [(''Anna'', anna)] ''Bob'' = None"
    by (simp add: find_record_def)
  note ok = valid_phone_example
  note thm1 = change_contact_edit_remove[where book = "[(''Anna'', anna)]" and nm = "''Anna''"
      and r = anna and N = 10 and old_phone = "''1234567890''" and new_phone = "''0987654321''"
      and p = "''1234567890''"]
  note thm2 = change_contact_edit_remove[where book = "[(''Anna'', anna)]" and nm = "''Anna''"
      and r = anna and N = 10 and p = "''0987654321''"]
  note thm3 = change_contact_edit_remove[where book = "[(''Anna'', anna)]" and nm = "''Bob''"
      and N = 10 and old_phone = "''1234567890''" and new_phone = "''0987654321''"
      and p = "''1234567890''"]
  show ?thesis
    using thm1 thm2 thm3 present absent ok by simp
qed

text \<open>
  C6 as stated fails for three arguments: with a new phone that breaks the format rule,
  and with an old phone the contact does not have, the reply is not
  \<open>Phone number updated.\<close> and the phones of the contact are the ones they were.
\<close>

theorem change_contact_not_updated_counterexample:
  "find_record [(''Anna'', anna)] ''Anna'' = Some anna \<and>
   fst (change_contact 10 [''Anna'', ''1234567890'', ''abc''] [(''Anna'', anna)]) \<noteq>
     ''Phone number updated.'' \<and>
   snd (change_contact 10 [''Anna'', ''1234567890'', ''abc''] [(''Anna'', anna)]) =
     [(''Anna'', anna)] \<and>
   fst (change_contact 10 [''Anna'', ''0987654321'', ''1234567890''] [(''Anna'', anna)]) \<noteq>
     ''Phone number updated.'' \<and>
   snd (change_contact 10 [''Anna'', ''0987654321'', ''1234567890''] [(''Anna'', anna)]) =
     [(''Anna'', anna)]"
  using valid_phone_example
  by (simp add: find_record_def change_contact_def input_error_def change_contact_body_def
        edit_phone_def invalid_phone_example find_phone_None)

section \<open>add\_birthday\<close>

text \<open>
  C7, as amended. With a name in the book and a birthday text that parses, \<open>add_birthday\<close>
  stores the date on that contact and replies \<open>Birthday added.\<close>; with a name that is not
  in the book it replies \<open>Contact not found.\<close> and the book is unchanged.
\<close>

theorem add_birthday_stores:
  "(find_record book nm = Some r \<and> parse_date bday_text = Some d \<longrightarrow>
      add_birthday [nm, bday_text] book =
        (''Birthday added.'', put_record nm (r\<lparr>birthday := Some d\<rparr>) book)) \<and>
   (find_record book nm = None \<longrightarrow>
      add_birthday [nm, bday_text] book = (''Contact not found.'', book))"
  by (simp add: add_birthday_def input_error_def add_birthday_body_def record_add_birthday_def)

theorem add_birthday_stores_witness:
  "add_birthday [''Bob'', ''15.03.1990''] [(''Bob'', bob)] =
     (''Birthday added.'',
      [(''Bob'', bob\<lparr>birthday := Some \<lparr>year = 1990, month = 3, day = 15\<rparr>\<rparr>)]) \<and>
   add_birthday [''Anna'', ''15.03.1990''] [(''Bob'', bob)] =
     (''Contact not found.'', [(''Bob'', bob)])"
proof -
  have present: "find_record [(''Bob'', bob)] ''Bob'' = Some bob"
    by (simp add: find_record_def)
  have absent: "find_record [(''Bob'', bob)] ''Anna'' = None"
    by (simp add: find_record_def)
  note thm1 = add_birthday_stores[where book = "[(''Bob'', bob)]" and nm = "''Bob''"
      and r = bob and bday_text = "''15.03.1990''" and d = "\<lparr>year = 1990, month = 3, day = 15\<rparr>"]
  note thm2 = add_birthday_stores[where book = "[(''Bob'', bob)]" and nm = "''Anna''"
      and bday_text = "''15.03.1990''"]
  show ?thesis
    using thm1 thm2 present absent parse_date_example by simp
qed

text \<open>
  C7 as stated fails: April has no day 31, so the text is no birthday; the name is in the
  book, the reply is not \<open>Birthday added.\<close> and no birthday is stored.
\<close>

theorem add_birthday_malformed_counterexample:
  "find_record [(''Bob'', bob)] ''Bob'' = Some bob \<and>
   fst (add_birthday [''Bob'', ''31.04.1990''] [(''Bob'', bob)]) \<noteq> ''Birthday added.'' \<and>
   snd (add_birthday [''Bob'', ''31.04.1990''] [(''Bob'', bob)]) = [(''Bob'', bob)]"
  by (simp add: find_record_def add_birthday_def input_error_def add_birthday_body_def
        record_add_birthday_def parse_date_april_31)

section \<open>show\_birthday\<close>

lemma colon_reply_not_missing: "nm @ '': '' @ s \<noteq> ''Contact not found.''"
proof
  assume eq: "nm @ '': '' @ s = ''Contact not found.''"
  have "CHR '':'' \<in> set (nm @ '': '' @ s)" by simp
  then have "CHR '':'' \<in> set ''Contact not found.''" unfolding eq .
  then show False by simp
qed

text \<open>
  C10. For a name in the book whose contact has no birthday, \<open>show_birthday\<close> replies
  with the name, a colon and \<open>None\<close>; its reply is \<open>Contact not found.\<close> exactly when
  the name is not in the book.
\<close>

theorem show_birthday_unset:
  "(find_record book nm = Some r \<and> birthday r = None \<longrightarrow>
      show_birthday [nm] book = (nm @ '': None'', book)) \<and>
   (fst (show_birthday [nm] book) = ''Contact not found.'' \<longleftrightarrow> find_record book nm = None)"
  using colon_reply_not_missing[of nm]
  by (simp add: show_birthday_def input_error_def show_birthday_body_def str_birthday_def
        split: option.splits)

theorem show_birthday_unset_witness:
  "find_record [(''Bob'', bob)] ''Bob'' = Some bob \<and> birthday bob = None \<and>
   show_birthday [''Bob''] [(''Bob'', bob)] = (''Bob: None'', [(''Bob'', bob)])"
proof -
  have present: "find_record [(''Bob'', bob)] ''Bob'' = Some bob"
    by (simp add: find_record_def)
  show ?thesis
    using show_birthday_unset[where book = "[(''Bob'', bob)]" and nm = "''Bob''" and r = bob]
      present
    by simp
qed

section \<open>show\_all\<close>

lemma lines_of_single: "newline \<notin> set x \<Longrightarrow> lines_of x = [x]"
  by (induction x) auto

lemma lines_of_append:
  "newline \<notin> set x \<Longrightarrow> lines_of (x @ newline # rest) = x # lines_of rest"
  by (induction x) auto

lemma lines_of_join:
  "xs \<noteq> [] \<Longrightarrow> \<forall>x\<in>set xs. newline \<notin> set x \<Longrightarrow> lines_of (str_join [newline] xs) = xs"
  by (induction "[newline]" xs rule: str_join.induct)
     (auto simp: lines_of_single lines_of_append)

text \<open>
  C5. On an empty book \<open>show_all\<close> replies \<open>The address book is empty.\<close>; otherwise its
  reply is the renderings of the stored contacts, in the order of the book, joined by
  newlines, so that (when no rendering holds a newline itself) the lines of the reply are
  these renderings, one per contact. The book is unchanged.
\<close>

theorem show_all_lines:
  "(book = [] \<longrightarrow> show_all book = (''The address book is empty.'', book)) \<and>
   (book \<noteq> [] \<longrightarrow>
      show_all book = (str_join [newline] (map (\<lambda>(k, r). str_record r) book), book) \<and>
      ((\<forall>(k, r)\<in>set book. newline \<notin> set (str_record r)) \<longrightarrow>
         lines_of (fst (show_all book)) = map (\<lambda>(k, r). str_record r) book))"
  by (auto simp: show_all_def input_error_def show_all_body_def intro!: lines_of_join)

theorem show_all_lines_witness:
  "show_all [] = (''The address book is empty.'', []) \<and>
   show_all [(''Anna'', anna), (''Bob'', bob)] =
     (''Anna: 1234567890, 15.03.1990'' @ [newline] @ ''Bob: 0987654321'',
      [(''Anna'', anna), (''Bob'', bob)]) \<and>
   lines_of (fst (show_all [(''Anna'', anna), (''Bob'', bob)])) =
     [''Anna: 1234567890, 15.03.1990'', ''Bob: 0987654321'']"
proof -
  have rendered:
    "str_record anna = ''Anna: 1234567890, 15.03.1990''" "str_record bob = ''Bob: 0987654321''"
    by (simp_all add: str_record_def str_date_example)
  have no_newline:
    "\<forall>(k, r)\<in>set [(''Anna'', anna), (''Bob'', bob)]. newline \<notin> set (str_record r)"
    by (simp add: rendered newline_def)
  note thm1 = show_all_lines[where book = "[]"]
  note thm2 = show_all_lines[where book = "[(''Anna'', anna), (''Bob'', bob)]"]
  show ?thesis
    using thm1 thm2 no_newline by (simp add: rendered newline_def)
qed

section \<open>parse\_input and the loop\<close>

lemma split_from_tokens:
  "\<forall>c\<in>set cur. \<not> isspace c \<Longrightarrow> t \<in> set (split_from cur s) \<Longrightarrow>
   t \<noteq> [] \<and> (\<forall>c\<in>set t. \<not> isspace c)"
proof (induction s arbitrary: cur)
  case Nil
  then show ?case by (auto split: if_splits)
next
  case (Cons a s)
  show ?case
  proof (cases "isspace a")
    case True
    then have "(t = cur \<and> cur \<noteq> []) \<or> t \<in> set (split_from [] s)"
      using Cons.prems(2) by (auto split: if_splits)
    then show ?thesis
      using Cons.IH[of "[]"] Cons.prems(1) by auto
  next
    case False
    then have "t \<in> set (split_from (cur @ [a]) s)"
      using Cons.prems(2) by simp
    then show ?thesis
      using Cons.IH[of "cur @ [a]"] Cons.prems(1) False by auto
  qed
qed

lemma split_from_nonempty:
  "cur \<noteq> [] \<or> (\<exists>c\<in>set s. \<not> isspace c) \<Longrightarrow> split_from cur s \<noteq> []"
  by (induction s arbitrary: cur) auto

lemma split_from_blank: "\<forall>c\<in>set s. isspace c \<Longrightarrow> split_from [] s = []"
  by (induction s) auto

lemma str_strip_token:
  assumes "t \<noteq> []" "\<forall>c\<in>set t. \<not> isspace c"
  shows "str_strip t = t"
proof -
  have at_start: "dropWhile isspace t = t"
    using assms by (cases t) auto
  have "rev t \<noteq> []" "\<forall>c\<in>set (rev t). \<not> isspace c"
    using assms by auto
  then have at_end: "dropWhile isspace (rev t) = rev t"
    by (cases "rev t") auto
  show ?thesis
    by (simp add: str_strip_def at_start at_end)
qed

lemma parse_input_blank:
  "\<forall>c\<in>set user_input. isspace c \<Longrightarrow>
   parse_input user_input =
     Inl (ValueError ''not enough values to unpack (expected at least 1, got 0)'')"
  by (simp add: parse_input_def str_split_def split_from_blank)

text \<open>
  C9, as amended. For every input line that holds a character that is not whitespace,
  \<open>parse_input\<close> returns the first token of the line in lower case as the action and the
  remaining tokens, unchanged, as the arguments.
\<close>

theorem parse_input_tokens:
  "\<exists>c\<in>set user_input. \<not> isspace c \<Longrightarrow>
   str_split user_input \<noteq> [] \<and>
   parse_input user_input =
     Inr (str_lower (hd (str_split user_input)), tl (str_split user_input))"
proof -
  assume "\<exists>c\<in>set user_input. \<not> isspace c"
  then have "str_split user_input \<noteq> []"
    by (simp add: str_split_def split_from_nonempty)
  then obtain action args where tokens: "str_split user_input = action # args"
    by (cases "str_split user_input") auto
  then have "action \<in> set (split_from [] user_input)"
    by (simp add: str_split_def)
  then have "action \<noteq> [] \<and> (\<forall>c\<in>set action. \<not> isspace c)"
    using split_from_tokens[of "[]" action user_input] by simp
  then have "str_strip action = action"
    by (simp add: str_strip_token)
  then show ?thesis
    using tokens by (simp add: parse_input_def)
qed

theorem parse_input_tokens_witness:
  "str_split ''ADD Anna 1234567890'' = [''ADD'', ''Anna'', ''1234567890''] \<and>
   parse_input ''ADD Anna 1234567890'' = Inr (''add'', [''Anna'', ''1234567890'']) \<and>
   parse_input ''add Anna 1234567890'' = Inr (''add'', [''Anna'', ''1234567890''])"
proof -
  have tokens1: "str_split ''ADD Anna 1234567890'' = [''ADD'', ''Anna'', ''1234567890'']"
    by (simp add: str_split_def isspace_def)
  have tokens2: "str_split ''add Anna 1234567890'' = [''add'', ''Anna'', ''1234567890'']"
    by (simp add: str_split_def isspace_def)
  have lower: "str_lower ''ADD'' = ''add''" "str_lower ''add'' = ''add''"
    by (simp_all add: str_lower_def lower_char_def char_of_eq_iff)
  have h1: "\<exists>c\<in>set ''ADD Anna 1234567890''. \<not> isspace c"
    by (simp add: isspace_def)
  have h2: "\<exists>c\<in>set ''add Anna 1234567890''. \<not> isspace c"
    by (simp add: isspace_def)
  show ?thesis
    using parse_input_tokens[OF h1] parse_input_tokens[OF h2]
    by (simp add: tokens1 tokens2 lower)
qed

text \<open>
  C9 as stated fails: the line of one blank is not empty, and \<open>parse_input\<close> returns
  nothing for it, it raises \<open>ValueError\<close>.
\<close>

theorem parse_input_blank_counterexample:
  "'' '' \<noteq> [] \<and>
   parse_input '' '' =
     Inl (ValueError ''not enough values to unpack (expected at least 1, got 0)'')"
  by (simp add: parse_input_def str_split_def isspace_def)

text \<open>
  C3, at the failing input. On the empty line, and on a line of blanks, the round of the
  loop ends with the \<open>ValueError\<close> of the unpacking in \<open>parse_input\<close>, which no handler
  and no decorator catches: no text is returned.
\<close>

theorem main_step_empty_line:
  "main_step N now [] book =
     Inl (ValueError ''not enough values to unpack (expected at least 1, got 0)'') \<and>
   main_step N now ''   '' book =
     Inl (ValueError ''not enough values to unpack (expected at least 1, got 0)'')"
  by (simp add: main_step_def parse_input_def str_split_def isspace_def)

lemma main_step_returns:
  "\<exists>c\<in>set user_input. \<not> isspace c \<Longrightarrow>
   \<exists>reply book'. main_step N now user_input book = Inr (reply, book')"
proof -
  assume "\<exists>c\<in>set user_input. \<not> isspace c"
  then have "str_split user_input \<noteq> []"
    by (simp add: str_split_def split_from_nonempty)
  then obtain action args where "str_split user_input = action # args"
    by (cases "str_split user_input") auto
  then have "main_step N now user_input book =
      Inr (handle_action N now (str_lower (str_strip action)) args book)"
    by (simp add: main_step_def parse_input_def)
  then show ?thesis
    by (metis surj_pair)
qed

section \<open>birthdays\<close>

lemma set_map_filter_eq: "set (List.map_filter f xs) = {y. \<exists>x\<in>set xs. f x = Some y}"
  by (induction xs) (auto split: option.splits)

lemma upcoming_set:
  "set (upcoming_birthdays now w book) =
     {e. \<exists>r\<in>snd ` set book. upcoming_entry now w r = Some e}"
  by (simp add: upcoming_birthdays_def set_map_filter_eq)

lemma upcoming_entry_Some:
  "upcoming_entry now w r = Some (r', d) \<Longrightarrow>
   r' = r \<and> (\<exists>b occ. birthday r = Some b \<and> occurrence now b = Some occ \<and>
                in_window now w occ \<and> d = congratulation_date occ)"
  by (auto simp: upcoming_entry_def split: option.splits if_splits)

lemma upcoming_empty:
  "upcoming_birthdays now w book = [] \<longleftrightarrow>
   (\<forall>r\<in>snd ` set book. upcoming_entry now w r = None)"
proof
  assume none: "upcoming_birthdays now w book = []"
  show "\<forall>r\<in>snd ` set book. upcoming_entry now w r = None"
  proof
    fix r
    assume stored: "r \<in> snd ` set book"
    show "upcoming_entry now w r = None"
    proof (cases "upcoming_entry now w r")
      case None
      then show ?thesis .
    next
      case (Some e)
      with stored have "e \<in> set (upcoming_birthdays now w book)"
        unfolding upcoming_set by blast
      with none show ?thesis by simp
    qed
  qed
next
  assume "\<forall>r\<in>snd ` set book. upcoming_entry now w r = None"
  then have "set (upcoming_birthdays now w book) = {}"
    unfolding upcoming_set by simp
  then show "upcoming_birthdays now w book = []" by simp
qed

lemma str_join_hd: "xs \<noteq> [] \<Longrightarrow> hd xs \<noteq> [] \<Longrightarrow> hd (str_join sep xs) = hd (hd xs)"
  by (induction sep xs rule: str_join.induct) auto

lemma birthday_lines_not_none:
  "rs \<noteq> [] \<Longrightarrow>
   str_join [newline] (map birthday_line rs) \<noteq> ''No birthdays in the next 7 days.''"
proof
  assume some: "rs \<noteq> []"
    and eq: "str_join [newline] (map birthday_line rs) = ''No birthdays in the next 7 days.''"
  have "hd (str_join [newline] (map birthday_line rs)) = hd (hd (map birthday_line rs))"
    using some by (intro str_join_hd) (auto simp: birthday_line_def hd_map)
  also have "\<dots> = CHR ''U''"
    using some by (simp add: hd_map birthday_line_def)
  finally show False
    unfolding eq by simp
qed


lemmas ordinal_defs = toordinal_def days_before_year_def days_before_month_def
  days_in_month_def is_leap_def upt_rec










text \<open>
  C8. When no contact of the book has a birthday whose occurrence falls in the window of
  7 days from today, \<open>birthdays\<close> replies \<open>No birthdays in the next 7 days.\<close> and the
  book is unchanged; and that reply is given in no other case.
\<close>

theorem birthdays_none_signal:
  "((\<forall>r\<in>snd ` set book. \<forall>b occ. birthday r = Some b \<longrightarrow> occurrence now b = Some occ \<longrightarrow>
        \<not> in_window now 7 occ) \<longrightarrow>
      birthdays now args book = (''No birthdays in the next 7 days.'', book)) \<and>
   (fst (birthdays now args book) = ''No birthdays in the next 7 days.'' \<longrightarrow>
      (\<forall>r\<in>snd ` set book. \<forall>b occ. birthday r = Some b \<longrightarrow> occurrence now b = Some occ \<longrightarrow>
        \<not> in_window now 7 occ))"
proof -
  have none: "(\<forall>r\<in>snd ` set book. \<forall>b occ. birthday r = Some b \<longrightarrow>
        occurrence now b = Some occ \<longrightarrow> \<not> in_window now 7 occ) \<longleftrightarrow>
      upcoming_birthdays now 7 book = []"
    unfolding upcoming_empty
    by (auto simp: upcoming_entry_def split: option.splits if_splits)
  show ?thesis
    unfolding none
    using birthday_lines_not_none[of "get_upcoming_birthdays now book"]
    by (auto simp: birthdays_def input_error_def birthdays_body_def
          get_upcoming_birthdays_def Let_def)
qed

theorem birthdays_none_signal_witness:
  "birthdays friday [] [(''Bob'', bob)] = (''No birthdays in the next 7 days.'', [(''Bob'', bob)]) \<and>
   birthdays \<lparr>year = 2025, month = 3, day = 17\<rparr> [] [(''Bob'', bob), (''Anna'', anna)] =
     (''No birthdays in the next 7 days.'', [(''Bob'', bob), (''Anna'', anna)])"
proof -
  have occ: "occurrence \<lparr>year = 2025, month = 3, day = 17\<rparr> \<lparr>year = 1990, month = 3, day = 15\<rparr> =
      Some \<lparr>year = 2026, month = 3, day = 15\<rparr>"
    by (simp add: occurrence_def valid_date_def days_in_month_def)
  have far: "\<not> in_window \<lparr>year = 2025, month = 3, day = 17\<rparr> 7 \<lparr>year = 2026, month = 3, day = 15\<rparr>"
    by (simp add: in_window_def ordinal_defs)
  have h1: "\<forall>r\<in>snd ` set [(''Bob'', bob)]. \<forall>b occ. birthday r = Some b \<longrightarrow>
      occurrence friday b = Some occ \<longrightarrow> \<not> in_window friday 7 occ"
    by simp
  have h2: "\<forall>r\<in>snd ` set [(''Bob'', bob), (''Anna'', anna)]. \<forall>b occ. birthday r = Some b \<longrightarrow>
      occurrence \<lparr>year = 2025, month = 3, day = 17\<rparr> b = Some occ \<longrightarrow>
      \<not> in_window \<lparr>year = 2025, month = 3, day = 17\<rparr> 7 occ"
    using occ far by simp
  note thm1 = birthdays_none_signal[where book = "[(''Bob'', bob)]" and now = friday
      and args = "[]", THEN conjunct1, THEN mp, OF h1]
  note thm2 = birthdays_none_signal[where book = "[(''Bob'', bob), (''Anna'', anna)]"
      and now = "\<lparr>year = 2025, month = 3, day = 17\<rparr>" and args = "[]",
      THEN conjunct1, THEN mp, OF h2]
  show ?thesis
    using thm1 thm2 by simp
qed

section \<open>The weekend policy\<close>





















end
